theory Spec2Isabelle
  imports Complex_Main
begin

section \<open>Data model (models.py)\<close>

text \<open>
  Every SQLAlchemy model class is a record with the columns of the class; a table is the
  list of its rows, in insertion order. Integer keys are naturals, a nullable column is an
  option, a DateTime is a natural number (a reading of the clock), and the Float columns
  \<open>progress\<close> and \<open>score\<close> are rationals: the quotients the program computes are taken
  exactly. A Python \<open>str\<close> is a \<open>string\<close> whose characters are the code points below 256.
\<close>

type_synonym datetime = nat

record course =
  c_id :: nat
  c_name :: string
  c_description :: string
  c_instructor_id :: nat

record module =
  m_id :: nat
  m_title :: string
  m_description :: string
  m_order :: int
  m_course_id :: nat

record content_item =
  ci_id :: nat
  ci_title :: string
  ci_type :: string
  ci_content :: "string option"
  ci_file_path :: "string option"
  ci_order :: int
  ci_module_id :: nat

record quiz_question =
  q_id :: nat
  q_question_text :: string
  q_content_item_id :: nat
  q_question_type :: string
  q_correct_answer :: "string option"
  q_options :: "string option"

record course_enrollment =
  e_id :: nat
  e_student_id :: nat
  e_course_id :: nat
  e_enrollment_date :: datetime
  e_completed :: bool
  e_progress :: rat
  e_completion_date :: "datetime option"

text \<open>
  The form of a quiz submission: the pair \<open>(i, a)\<close> is the field \<open>question_i\<close> with value
  \<open>a\<close>; \<open>request.form.get\<close> is \<open>map_of\<close>. The \<open>response\<close> column keeps the submitted form
  (the program stores its JSON text).
\<close>

type_synonym form = "(nat \<times> string) list"

record student_response =
  r_id :: nat
  r_student_id :: nat
  r_content_item_id :: nat
  r_response :: "form option"
  r_score :: "rat option"
  r_completed :: bool
  r_completion_date :: "datetime option"

record store =
  courses :: "course list"
  modules :: "module list"
  content_items :: "content_item list"
  quiz_questions :: "quiz_question list"
  course_enrollments :: "course_enrollment list"
  student_responses :: "student_response list"

datatype error = NotFound | ZeroDivisionError | AttributeError | IntegrityError

datatype http_method = GET | POST

text \<open>The next value of an integer primary key: one more than the largest key in use.\<close>

definition next_id :: "nat list \<Rightarrow> nat" where
  "next_id ids = Suc (fold max ids 0)"

subsection \<open>Relationships\<close>

text \<open>\<open>course.modules\<close>, \<open>module.content_items\<close> and \<open>content_item.questions\<close>.\<close>

definition course_modules :: "store \<Rightarrow> nat \<Rightarrow> module list" where
  "course_modules st cid = filter (\<lambda>m. m_course_id m = cid) (modules st)"

definition module_content_items :: "store \<Rightarrow> nat \<Rightarrow> content_item list" where
  "module_content_items st mid = filter (\<lambda>c. ci_module_id c = mid) (content_items st)"

definition questions :: "store \<Rightarrow> nat \<Rightarrow> quiz_question list" where
  "questions st ciid = filter (\<lambda>q. q_content_item_id q = ciid) (quiz_questions st)"

definition get_course :: "store \<Rightarrow> nat \<Rightarrow> course option" where
  "get_course st cid = find (\<lambda>c. c_id c = cid) (courses st)"

definition get_module :: "store \<Rightarrow> nat \<Rightarrow> module option" where
  "get_module st mid = find (\<lambda>m. m_id m = mid) (modules st)"

definition get_content_item :: "store \<Rightarrow> nat \<Rightarrow> content_item option" where
  "get_content_item st ciid = find (\<lambda>c. ci_id c = ciid) (content_items st)"

section \<open>QuizQuestion.is_answer_correct\<close>

text \<open>
  \<open>str.strip()\<close> removes the leading and trailing characters for which \<open>str.isspace\<close>
  holds, and \<open>str.lower()\<close> maps every cased character to lower case; both are given
  here on the code points below 256. \<open>str(None)\<close> is the text \<open>None\<close>.
\<close>

definition py_isspace :: "char \<Rightarrow> bool" where
  "py_isspace c =
     (let n = (of_char c :: nat)
      in (9 \<le> n \<and> n \<le> 13) \<or> (28 \<le> n \<and> n \<le> 32) \<or> n = 133 \<or> n = 160)"

definition py_lower_char :: "char \<Rightarrow> char" where
  "py_lower_char c =
     (let n = (of_char c :: nat)
      in if (65 \<le> n \<and> n \<le> 90) \<or> (192 \<le> n \<and> n \<le> 222 \<and> n \<noteq> 215)
         then char_of (n + 32) else c)"

definition strip :: "string \<Rightarrow> string" where
  "strip s = rev (dropWhile py_isspace (rev (dropWhile py_isspace s)))"

definition lower :: "string \<Rightarrow> string" where
  "lower s = map py_lower_char s"

definition py_str :: "string option \<Rightarrow> string" where
  "py_str v = (case v of None \<Rightarrow> ''None'' | Some s \<Rightarrow> s)"

definition is_answer_correct :: "quiz_question \<Rightarrow> string \<Rightarrow> bool" where
  "is_answer_correct q user_answer =
     (lower (strip (py_str (q_correct_answer q))) = lower (strip user_answer))"

section \<open>CourseEnrollment.update_progress\<close>

definition total_content :: "store \<Rightarrow> nat \<Rightarrow> nat" where
  "total_content st cid =
     sum_list (map (\<lambda>m. length (module_content_items st (m_id m))) (course_modules st cid))"

definition course_content_ids :: "store \<Rightarrow> nat \<Rightarrow> nat list" where
  "course_content_ids st cid =
     concat (map (\<lambda>m. map ci_id (module_content_items st (m_id m))) (course_modules st cid))"

text \<open>
  The query \<open>filter_by(student_id, completed=True).filter(content_item_id.in_(...)).count()\<close>:
  the number of rows that pass the three tests.
\<close>

definition completed_content :: "store \<Rightarrow> nat \<Rightarrow> nat \<Rightarrow> nat" where
  "completed_content st sid cid =
     length (filter (\<lambda>r. r_student_id r = sid \<and> r_completed r \<and>
                          r_content_item_id r \<in> set (course_content_ids st cid))
               (student_responses st))"

definition percentage :: "nat \<Rightarrow> nat \<Rightarrow> rat" where
  "percentage completed_n total_n =
     (if total_n > 0 then (of_nat completed_n / of_nat total_n) * 100 else 0)"

text \<open>
  The method body on the enrollment object: \<open>self.course\<close> is the course row of the
  enrollment's \<open>course_id\<close> (reading \<open>.modules\<close> of a missing one raises AttributeError),
  \<open>now\<close> is the reading of \<open>datetime.utcnow()\<close>.
\<close>

definition update_progress :: "store \<Rightarrow> datetime \<Rightarrow> course_enrollment \<Rightarrow> error + course_enrollment" where
  "update_progress st now e =
     (case get_course st (e_course_id e) of
        None \<Rightarrow> Inl AttributeError
      | Some c \<Rightarrow>
          (let total_n = total_content st (c_id c);
               completed_n = completed_content st (e_student_id e) (c_id c);
               e1 = e\<lparr>e_progress := percentage completed_n total_n\<rparr>
           in if e_progress e1 = 100
              then Inr (e1\<lparr>e_completed := True, e_completion_date := Some now\<rparr>)
              else Inr e1))"

text \<open>\<open>db.session.commit()\<close> of a changed enrollment object: its row is replaced.\<close>

definition commit_enrollment :: "store \<Rightarrow> course_enrollment \<Rightarrow> store" where
  "commit_enrollment st e =
     st\<lparr>course_enrollments := map (\<lambda>x. if e_id x = e_id e then e else x) (course_enrollments st)\<rparr>"

section \<open>The enrollment backfill loop (app.py, module level)\<close>

text \<open>
  The body of the loop over \<open>CourseEnrollment.query.all()\<close>: the count is of all completed
  responses of the student, and the completion flag is set in both directions.
\<close>

definition backfill_enrollment :: "store \<Rightarrow> datetime \<Rightarrow> course_enrollment \<Rightarrow> error + course_enrollment" where
  "backfill_enrollment st now e =
     (case get_course st (e_course_id e) of
        None \<Rightarrow> Inl AttributeError
      | Some c \<Rightarrow>
          (let total_n = total_content st (c_id c);
               completed_n = length (filter (\<lambda>r. r_student_id r = e_student_id e \<and> r_completed r)
                                       (student_responses st));
               e1 = e\<lparr>e_progress := percentage completed_n total_n\<rparr>
           in if e_progress e1 = 100
              then Inr (e1\<lparr>e_completed := True, e_completion_date := Some now\<rparr>)
              else Inr (e1\<lparr>e_completed := False, e_completion_date := None\<rparr>)))"

section \<open>take_quiz (app.py)\<close>

text \<open>
  The grading loop of the POST branch: an answer counts when the field is present, is not
  the empty text and \<open>is_answer_correct\<close> accepts it.
\<close>

definition answer_counts :: "form \<Rightarrow> quiz_question \<Rightarrow> bool" where
  "answer_counts frm q =
     (case map_of frm (q_id q) of
        None \<Rightarrow> False
      | Some student_answer \<Rightarrow> student_answer \<noteq> [] \<and> is_answer_correct q student_answer)"

fun count_correct :: "form \<Rightarrow> quiz_question list \<Rightarrow> nat \<Rightarrow> nat" where
  "count_correct frm [] correct_answers = correct_answers"
| "count_correct frm (q # qs) correct_answers =
     count_correct frm qs (if answer_counts frm q then correct_answers + 1 else correct_answers)"

text \<open>Lines 1056 to 1066: the score, or the ZeroDivisionError of the division.\<close>

definition grade :: "form \<Rightarrow> quiz_question list \<Rightarrow> error + rat" where
  "grade frm qs =
     (let total_questions = length qs;
          correct_answers = count_correct frm qs 0
      in if total_questions = 0 then Inl ZeroDivisionError
         else Inr ((of_nat correct_answers / of_nat total_questions) * 10))"

text \<open>
  The query for a response of this student to this quiz with \<open>score >= 7\<close>; a NULL score
  passes no comparison.
\<close>

definition passing_response :: "nat \<Rightarrow> nat \<Rightarrow> student_response \<Rightarrow> bool" where
  "passing_response uid quiz_id r =
     (r_student_id r = uid \<and> r_content_item_id r = quiz_id \<and>
      (case r_score r of None \<Rightarrow> False | Some s \<Rightarrow> s \<ge> 7))"

datatype quiz_outcome = NotAQuiz | AlreadyPassed | QuizPage | Graded rat

text \<open>
  \<open>uid\<close> is \<open>current_user.id\<close>; \<open>t_response\<close> and \<open>t_progress\<close> are the two readings of
  \<open>datetime.utcnow()\<close>, for the response row and inside \<open>update_progress\<close>. An exception
  leaves the request without a commit, so it returns no store.
\<close>

definition take_quiz ::
  "store \<Rightarrow> datetime \<Rightarrow> datetime \<Rightarrow> nat \<Rightarrow> nat \<Rightarrow> http_method \<Rightarrow> form \<Rightarrow> error + (quiz_outcome \<times> store)" where
  "take_quiz st t_response t_progress uid quiz_id method frm =
     (case get_content_item st quiz_id of
        None \<Rightarrow> Inl NotFound
      | Some quiz \<Rightarrow>
          if ci_type quiz \<noteq> ''quiz'' then Inr (NotAQuiz, st)
          else if find (passing_response uid quiz_id) (student_responses st) \<noteq> None
          then Inr (AlreadyPassed, st)
          else if method = POST then
            (case grade frm (questions st (ci_id quiz)) of
               Inl err \<Rightarrow> Inl err
             | Inr score \<Rightarrow>
                 (let response = \<lparr>r_id = next_id (map r_id (student_responses st)),
                                  r_student_id = uid,
                                  r_content_item_id = ci_id quiz,
                                  r_response = Some frm,
                                  r_score = Some score,
                                  r_completed = True,
                                  r_completion_date = Some t_response\<rparr>;
                      st1 = st\<lparr>student_responses := student_responses st @ [response]\<rparr>
                  in case get_module st1 (ci_module_id quiz) of
                       None \<Rightarrow> Inl AttributeError
                     | Some m \<Rightarrow>
                         (case get_course st1 (m_course_id m) of
                            None \<Rightarrow> Inl AttributeError
                          | Some c \<Rightarrow>
                              (case find (\<lambda>e. e_student_id e = uid \<and> e_course_id e = c_id c)
                                      (course_enrollments st1) of
                                 None \<Rightarrow> Inr (Graded score, st1)
                               | Some enrollment \<Rightarrow>
                                   (case update_progress st1 t_progress enrollment of
                                      Inl err \<Rightarrow> Inl err
                                    | Inr e' \<Rightarrow> Inr (Graded score, commit_enrollment st1 e'))))))
          else Inr (QuizPage, st))"

section \<open>enroll_course (app.py)\<close>

text \<open>The result is the pair of \<open>created\<close> and the store after the request.\<close>

definition enroll_course :: "store \<Rightarrow> datetime \<Rightarrow> nat \<Rightarrow> nat \<Rightarrow> error + (bool \<times> store)" where
  "enroll_course st now uid course_id =
     (case get_course st course_id of
        None \<Rightarrow> Inl NotFound
      | Some c \<Rightarrow>
          (case find (\<lambda>e. e_student_id e = uid \<and> e_course_id e = course_id) (course_enrollments st) of
             Some enrollment \<Rightarrow> Inr (False, st)
           | None \<Rightarrow>
               (let new_enrollment = \<lparr>e_id = next_id (map e_id (course_enrollments st)),
                                       e_student_id = uid,
                                       e_course_id = course_id,
                                       e_enrollment_date = now,
                                       e_completed = False,
                                       e_progress = 0,
                                       e_completion_date = None\<rparr>
                in Inr (True, st\<lparr>course_enrollments := course_enrollments st @ [new_enrollment]\<rparr>))))"

section \<open>delete_content (app.py)\<close>

text \<open>
  \<open>db.session.delete(content_item)\<close> removes the row and, by the relationship
  \<open>questions\<close> (cascade \<open>all, delete-orphan\<close>), the quiz questions of the item. The
  relationship to the responses (\<open>backref='responses'\<close> of \<open>StudentResponse.content_item\<close>)
  declares no delete cascade: at the flush the session sets \<open>content_item_id\<close> of the
  response rows of the item to NULL, the column is \<open>nullable=False\<close>, and the flush fails
  with IntegrityError. The route has no handler for it and calls nothing else, so such a
  request commits nothing.
\<close>

datatype delete_outcome = NoPermission | Deleted

definition delete_content :: "store \<Rightarrow> nat \<Rightarrow> nat \<Rightarrow> error + (delete_outcome \<times> store)" where
  "delete_content st uid content_id =
     (case get_content_item st content_id of
        None \<Rightarrow> Inl NotFound
      | Some item \<Rightarrow>
          (case get_module st (ci_module_id item) of
             None \<Rightarrow> Inl AttributeError
           | Some m \<Rightarrow>
               (case get_course st (m_course_id m) of
                  None \<Rightarrow> Inl AttributeError
                | Some c \<Rightarrow>
                    if c_instructor_id c \<noteq> uid then Inr (NoPermission, st)
                    else if find (\<lambda>r. r_content_item_id r = content_id) (student_responses st) \<noteq> None
                    then Inl IntegrityError
                    else Inr (Deleted,
                              st\<lparr>content_items := filter (\<lambda>x. ci_id x \<noteq> content_id) (content_items st),
                                 quiz_questions := filter (\<lambda>q. q_content_item_id q \<noteq> content_id)
                                                     (quiz_questions st)\<rparr>))))"

section \<open>The comparison the specification describes\<close>

text \<open>
  The specification's test for one question: the answer submitted for it equals the
  question's correct answer after both are trimmed and lower-cased.
\<close>

definition normalized_equal :: "form \<Rightarrow> quiz_question \<Rightarrow> bool" where
  "normalized_equal frm q =
     (case map_of frm (q_id q) of
        None \<Rightarrow> False
      | Some a \<Rightarrow> lower (strip (py_str (q_correct_answer q))) = lower (strip a))"

section \<open>Example stores\<close>

definition geography :: course where
  "geography = \<lparr>c_id = 1, c_name = ''Geography'', c_description = ''Capitals'', c_instructor_id = 10\<rparr>"

definition europe :: module where
  "europe = \<lparr>m_id = 1, m_title = ''Europe'', m_description = ''Part one'', m_order = 1, m_course_id = 1\<rparr>"

definition capitals_quiz :: content_item where
  "capitals_quiz = \<lparr>ci_id = 1, ci_title = ''Capitals quiz'', ci_type = ''quiz'', ci_content = None,
                     ci_file_path = None, ci_order = 1, ci_module_id = 1\<rparr>"

definition reading :: content_item where
  "reading = \<lparr>ci_id = 2, ci_title = ''Reading'', ci_type = ''text'', ci_content = Some ''Atlas'',
               ci_file_path = None, ci_order = 2, ci_module_id = 1\<rparr>"

definition question :: "nat \<Rightarrow> nat \<Rightarrow> string \<Rightarrow> quiz_question" where
  "question i item answer =
     \<lparr>q_id = i, q_question_text = ''Capital?'', q_content_item_id = item,
      q_question_type = ''short_answer'', q_correct_answer = Some answer, q_options = None\<rparr>"

definition new_enrollment :: course_enrollment where
  "new_enrollment = \<lparr>e_id = 1, e_student_id = 5, e_course_id = 1, e_enrollment_date = 0,
                      e_completed = False, e_progress = 0, e_completion_date = None\<rparr>"

definition attempt :: "nat \<Rightarrow> datetime \<Rightarrow> string \<Rightarrow> rat \<Rightarrow> student_response" where
  "attempt i t answer score =
     \<lparr>r_id = i, r_student_id = 5, r_content_item_id = 1, r_response = Some [(1, answer)],
      r_score = Some score, r_completed = True, r_completion_date = Some t\<rparr>"

text \<open>One course, one module, one quiz with one question; student 5 is enrolled.\<close>

definition quiz_store :: store where
  "quiz_store =
     \<lparr>courses = [geography], modules = [europe], content_items = [capitals_quiz],
      quiz_questions = [question 1 1 ''Paris''], course_enrollments = [new_enrollment],
      student_responses = []\<rparr>"

text \<open>The store after one failed attempt of student 5, and after a second one.\<close>

definition once_failed_store :: store where
  "once_failed_store =
     quiz_store\<lparr>course_enrollments :=
                  [new_enrollment\<lparr>e_progress := 100, e_completed := True, e_completion_date := Some 2\<rparr>],
                student_responses := [attempt 1 1 ''Rome'' 0]\<rparr>"

definition twice_failed_store :: store where
  "twice_failed_store =
     quiz_store\<lparr>course_enrollments :=
                  [new_enrollment\<lparr>e_progress := 200, e_completed := True, e_completion_date := Some 2\<rparr>],
                student_responses := [attempt 1 1 ''Rome'' 0, attempt 2 3 ''Oslo'' 0]\<rparr>"

text \<open>
  Student 5 passed the quiz and the enrollment was recorded as completed; then the course
  got a text item and a second quiz.
\<close>

definition second_quiz :: content_item where
  "second_quiz = \<lparr>ci_id = 3, ci_title = ''Rivers quiz'', ci_type = ''quiz'', ci_content = None,
                   ci_file_path = None, ci_order = 3, ci_module_id = 1\<rparr>"

definition finished_enrollment :: course_enrollment where
  "finished_enrollment =
     new_enrollment\<lparr>e_progress := 100, e_completed := True, e_completion_date := Some 3\<rparr>"

definition grown_store :: store where
  "grown_store =
     quiz_store\<lparr>content_items := [capitals_quiz, reading, second_quiz],
                quiz_questions := [question 1 1 ''Paris'', question 2 3 ''Danube''],
                course_enrollments := [finished_enrollment],
                student_responses := [attempt 1 2 ''Paris'' 10]\<rparr>"

text \<open>
  A course of two items of which student 5 has completed the quiz; the enrollment holds
  the recomputed 50 percent. Below it, the store without the text item.
\<close>

definition half_enrollment :: course_enrollment where
  "half_enrollment = new_enrollment\<lparr>e_progress := 50\<rparr>"

definition half_store :: store where
  "half_store =
     quiz_store\<lparr>content_items := [capitals_quiz, reading],
                course_enrollments := [half_enrollment],
                student_responses := [attempt 1 2 ''Paris'' 10]\<rparr>"

definition half_store_no_text :: store where
  "half_store_no_text = half_store\<lparr>content_items := [capitals_quiz]\<rparr>"

text \<open>The grown course without its second quiz and the question of that quiz.\<close>

definition grown_store_no_second_quiz :: store where
  "grown_store_no_second_quiz =
     grown_store\<lparr>content_items := [capitals_quiz, reading],
                 quiz_questions := [question 1 1 ''Paris'']\<rparr>"

text \<open>The enrollment of student 5 as \<open>update_progress\<close> leaves it at 100 percent at time \<open>t\<close>.\<close>

definition stamped :: "datetime \<Rightarrow> course_enrollment" where
  "stamped t = new_enrollment\<lparr>e_progress := 100, e_completed := True, e_completion_date := Some t\<rparr>"

text \<open>A quiz item without questions, as \<open>new_content\<close> creates it for the type \<open>quiz\<close>.\<close>

definition empty_quiz_store :: store where
  "empty_quiz_store = quiz_store\<lparr>quiz_questions := []\<rparr>"

text \<open>Four questions, with three answers that differ from the stored ones in case and blanks.\<close>

definition capitals_questions :: "quiz_question list" where
  "capitals_questions =
     [question 1 1 ''Paris'', question 2 1 ''Berlin'', question 3 1 '' Rome'', question 4 1 ''Madrid'']"

definition capitals_form :: form where
  "capitals_form = [(1, ''  pARIS ''), (2, ''BERLIN''), (3, ''rome  ''), (4, ''Lisbon'')]"

text \<open>Four questions, three of them stored with the empty correct answer and left blank.\<close>

definition blank_questions :: "quiz_question list" where
  "blank_questions = [question 1 1 [], question 2 1 [], question 3 1 [], question 4 1 ''Madrid'']"

definition blank_form :: form where
  "blank_form = [(1, []), (2, []), (3, []), (4, ''Lisbon'')]"

section \<open>Facts about the queries\<close>

lemma find_id_Some: "find (\<lambda>x. f x = k) xs = Some y \<Longrightarrow> f y = k \<and> y \<in> set xs"
  by (auto simp: find_Some_iff)

lemma find_None_filter: "find P xs = None \<longleftrightarrow> filter P xs = []"
  by (induction xs) auto


lemma get_course_Some: "get_course st cid = Some c \<Longrightarrow> c_id c = cid \<and> c \<in> set (courses st)"
  unfolding get_course_def by (rule find_id_Some)

lemma get_module_Some: "get_module st mid = Some m \<Longrightarrow> m_id m = mid \<and> m \<in> set (modules st)"
  unfolding get_module_def by (rule find_id_Some)

lemma get_content_item_Some:
  "get_content_item st k = Some x \<Longrightarrow> ci_id x = k \<and> x \<in> set (content_items st)"
  unfolding get_content_item_def by (rule find_id_Some)

lemma total_content_cong:
  assumes "modules st' = modules st" "content_items st' = content_items st"
  shows "total_content st' cid = total_content st cid"
  unfolding total_content_def course_modules_def module_content_items_def assms by (rule refl)

lemma course_content_ids_cong:
  assumes "modules st' = modules st" "content_items st' = content_items st"
  shows "course_content_ids st' cid = course_content_ids st cid"
  unfolding course_content_ids_def course_modules_def module_content_items_def assms by (rule refl)

lemma content_in_course:
  assumes "get_content_item st k = Some x" "get_module st (ci_module_id x) = Some m"
  shows "k \<in> set (course_content_ids st (m_course_id m))"
proof -
  from assms(1) have x: "ci_id x = k" "x \<in> set (content_items st)"
    by (auto dest: get_content_item_Some)
  from assms(2) have m: "m_id m = ci_module_id x" "m \<in> set (modules st)"
    by (auto dest: get_module_Some)
  have "x \<in> set (module_content_items st (m_id m))"
    using x m by (simp add: module_content_items_def)
  moreover have "m \<in> set (course_modules st (m_course_id m))"
    using m by (simp add: course_modules_def)
  ultimately show ?thesis
    using x(1) by (auto simp: course_content_ids_def)
qed

lemma completed_content_append:
  assumes "modules st' = modules st" "content_items st' = content_items st"
    and "student_responses st' = student_responses st @ [r]"
    and "r_student_id r = sid" "r_completed r" "r_content_item_id r \<in> set (course_content_ids st cid)"
  shows "completed_content st' sid cid = completed_content st sid cid + 1"
  unfolding completed_content_def course_content_ids_cong[OF assms(1,2)] assms(3)
  using assms(4,5,6) by simp

section \<open>Facts about the percentage and update_progress\<close>

lemma percentage_nonneg: "0 \<le> percentage a b"
  by (simp add: percentage_def)

lemma percentage_zero_total: "percentage a 0 = 0"
  by (simp add: percentage_def)

lemma percentage_100_iff: "percentage a b = 100 \<longleftrightarrow> (b > 0 \<and> a = b)"
  by (auto simp: percentage_def field_simps)

lemma percentage_le_100: "a \<le> b \<Longrightarrow> percentage a b \<le> 100"
  by (auto simp: percentage_def field_simps)

lemma update_progress_result:
  "get_course st (e_course_id e) = Some c \<Longrightarrow>
   update_progress st now e =
     Inr (let p = percentage (completed_content st (e_student_id e) (e_course_id e))
                             (total_content st (e_course_id e))
          in if p = 100 then e\<lparr>e_progress := p, e_completed := True, e_completion_date := Some now\<rparr>
             else e\<lparr>e_progress := p\<rparr>)"
  by (auto simp: update_progress_def Let_def dest: get_course_Some)

lemma update_progress_Inr:
  "update_progress st now e = Inr e' \<Longrightarrow> \<exists>c. get_course st (e_course_id e) = Some c"
  by (auto simp: update_progress_def split: option.splits)

lemma update_progress_progress:
  assumes "update_progress st now e = Inr e'"
  shows "e_progress e' = percentage (completed_content st (e_student_id e) (e_course_id e))
                                    (total_content st (e_course_id e))"
proof -
  obtain c where c: "get_course st (e_course_id e) = Some c"
    using assms update_progress_Inr by blast
  show ?thesis
    using assms unfolding update_progress_result[OF c] by (auto simp: Let_def split: if_splits)
qed

text \<open>The recomputed progress is never negative, and it is 0 for a course without content.\<close>

lemma update_progress_nonneg: "update_progress st now e = Inr e' \<Longrightarrow> 0 \<le> e_progress e'"
  by (simp add: update_progress_progress percentage_nonneg)

lemma update_progress_no_content:
  "update_progress st now e = Inr e' \<Longrightarrow> total_content st (e_course_id e) = 0 \<Longrightarrow> e_progress e' = 0"
  by (simp add: update_progress_progress percentage_zero_total)

text \<open>
  \<open>update_progress\<close> sets the completion flag at 100 percent and otherwise leaves it as it
  was; the backfill loop sets it in both directions.
\<close>

lemma update_progress_completed:
  assumes "update_progress st now e = Inr e'"
  shows "e_completed e' = (e_progress e' = 100 \<or> e_completed e)"
proof -
  obtain c where c: "get_course st (e_course_id e) = Some c"
    using assms update_progress_Inr by blast
  show ?thesis
    using assms unfolding update_progress_result[OF c] by (auto simp: Let_def split: if_splits)
qed

lemma backfill_enrollment_completed:
  "backfill_enrollment st now e = Inr e' \<Longrightarrow> e_completed e' = (e_progress e' = 100)"
  by (auto simp: backfill_enrollment_def Let_def split: option.splits if_splits)

section \<open>Facts about take_quiz\<close>

lemma count_correct_filter:
  "count_correct frm qs n = n + length (filter (answer_counts frm) qs)"
  by (induction qs arbitrary: n) auto

lemma answer_counts_iff:
  "answer_counts frm q \<longleftrightarrow> normalized_equal frm q \<and> map_of frm (q_id q) \<noteq> Some []"
  by (auto simp: answer_counts_def normalized_equal_def is_answer_correct_def split: option.splits)

lemma grade_nonempty:
  "qs \<noteq> [] \<Longrightarrow>
   grade frm qs = Inr ((of_nat (length (filter (answer_counts frm) qs)) / of_nat (length qs)) * 10)"
  by (simp add: grade_def Let_def count_correct_filter)

lemma take_quiz_blocked:
  assumes "get_content_item st quiz_id = Some quiz" "ci_type quiz = ''quiz''"
    and "r \<in> set (student_responses st)" "passing_response uid quiz_id r"
  shows "take_quiz st tr tp uid quiz_id method frm = Inr (AlreadyPassed, st)"
proof -
  have "find (passing_response uid quiz_id) (student_responses st) \<noteq> None"
    using assms(3,4) by (auto simp: find_None_iff)
  then show ?thesis using assms(1,2) by (simp add: take_quiz_def del: find_None_iff)
qed

text \<open>A submission to a quiz without questions ends in the error of the division.\<close>

lemma take_quiz_no_questions:
  assumes "get_content_item st quiz_id = Some quiz" "ci_type quiz = ''quiz''"
    and "find (passing_response uid quiz_id) (student_responses st) = None"
    and "questions st quiz_id = []"
  shows "take_quiz st tr tp uid quiz_id POST frm = Inl ZeroDivisionError"
proof -
  have id: "ci_id quiz = quiz_id" using assms(1) by (auto dest: get_content_item_Some)
  show ?thesis using assms by (simp add: take_quiz_def id grade_def)
qed

lemma take_quiz_graded:
  assumes q: "get_content_item st quiz_id = Some quiz" and ty: "ci_type quiz = ''quiz''"
    and np: "find (passing_response uid quiz_id) (student_responses st) = None"
    and g: "grade frm (questions st quiz_id) = Inr score"
    and m: "get_module st (ci_module_id quiz) = Some m"
    and c: "get_course st (m_course_id m) = Some c"
    and r: "response = \<lparr>r_id = next_id (map r_id (student_responses st)), r_student_id = uid,
                         r_content_item_id = quiz_id, r_response = Some frm, r_score = Some score,
                         r_completed = True, r_completion_date = Some tr\<rparr>"
    and s1: "st1 = st\<lparr>student_responses := student_responses st @ [response]\<rparr>"
    and p: "p = percentage (completed_content st1 uid (m_course_id m)) (total_content st1 (m_course_id m))"
  shows "take_quiz st tr tp uid quiz_id POST frm =
           (case find (\<lambda>e. e_student_id e = uid \<and> e_course_id e = m_course_id m) (course_enrollments st) of
              None \<Rightarrow> Inr (Graded score, st1)
            | Some e \<Rightarrow>
                Inr (Graded score,
                     commit_enrollment st1
                       (e\<lparr>e_progress := p,
                          e_completed := (if p = 100 then True else e_completed e),
                          e_completion_date := (if p = 100 then Some tp else e_completion_date e)\<rparr>)))"
proof -
  have id: "ci_id quiz = quiz_id" using q by (auto dest: get_content_item_Some)
  have cid: "c_id c = m_course_id m" using c by (auto dest: get_course_Some)
  have m1: "get_module st1 (ci_module_id quiz) = Some m" using m by (simp add: s1 get_module_def)
  have c1: "get_course st1 (m_course_id m) = Some c" using c by (simp add: s1 get_course_def)
  have en: "course_enrollments st1 = course_enrollments st" by (simp add: s1)
  show ?thesis
  proof (cases "find (\<lambda>e. e_student_id e = uid \<and> e_course_id e = m_course_id m) (course_enrollments st)")
    case None
    then show ?thesis
      using q ty np g m1 c1 en
      by (simp add: take_quiz_def id cid Let_def r[symmetric] s1[symmetric])
  next
    case (Some e)
    then have e: "e_student_id e = uid" "e_course_id e = m_course_id m"
      by (auto simp: find_Some_iff)
    have ce: "get_course st1 (e_course_id e) = Some c" using c1 e by simp
    have up: "update_progress st1 tp e =
       Inr (e\<lparr>e_progress := p,
              e_completed := (if p = 100 then True else e_completed e),
              e_completion_date := (if p = 100 then Some tp else e_completion_date e)\<rparr>)"
      unfolding update_progress_result[OF ce] by (simp add: e Let_def p)
    show ?thesis
      using q ty np g m1 c1 en Some up
      by (simp add: take_quiz_def id cid Let_def r[symmetric] s1[symmetric])
  qed
qed

section \<open>Counting completed content\<close>

text \<open>
  C1. The claim is that a content item with completed responses contributes exactly 1 to
  \<open>completed_content\<close>, however many completed rows there are. The query counts rows: after
  two failed attempts of student 5 at the only quiz of the course there are two completed
  rows for content item 1, the course has one content item, and the count is 2.
\<close>

theorem completed_content_counts_rows:
  "map r_content_item_id (student_responses twice_failed_store) = [1, 1] \<and>
   map r_student_id (student_responses twice_failed_store) = [5, 5] \<and>
   course_content_ids twice_failed_store 1 = [1] \<and>
   total_content twice_failed_store 1 = 1 \<and>
   completed_content twice_failed_store 5 1 = 2"
  by code_simp

text \<open>
  C6. The claim is that the recomputed progress lies between 0 and 100 in every reachable
  store. Two failed submissions of student 5 to the one quiz of the course are both
  accepted, and the second recomputation stores a progress of 200.
\<close>

theorem progress_exceeds_100:
  "take_quiz quiz_store 1 2 5 1 POST [(1, ''Rome'')] = Inr (Graded 0, once_failed_store) \<and>
   take_quiz once_failed_store 3 4 5 1 POST [(1, ''Oslo'')] = Inr (Graded 0, twice_failed_store) \<and>
   map e_progress (course_enrollments twice_failed_store) = [200]"
  by code_simp

section \<open>The completion flag\<close>

text \<open>
  C2. The claim is that after every recomputation the enrollment is completed exactly when
  the recomputed progress is 100. Student 5 passed the first quiz when it was the only
  content, and the enrollment is completed; the course then got two more items. The failed
  submission to the second quiz recomputes the progress to two thirds of 100 and leaves the
  enrollment completed, with its old completion date. The backfill loop on the same
  enrollment clears both.
\<close>

theorem update_progress_keeps_completed:
  "map_sum id (map_prod id course_enrollments) (take_quiz grown_store 7 8 5 3 POST [(2, ''Rhine'')]) =
     Inr (Graded 0, [finished_enrollment\<lparr>e_progress := 200 / 3\<rparr>]) \<and>
   e_completed (finished_enrollment\<lparr>e_progress := 200 / 3\<rparr>) \<and>
   e_completion_date (finished_enrollment\<lparr>e_progress := 200 / 3\<rparr>) = Some 3 \<and>
   map_sum id e_completed (backfill_enrollment grown_store 8 finished_enrollment) = Inr False"
  by code_simp

section \<open>Quizzes without questions\<close>

text \<open>
  C5. The claim is that a submission to a quiz with zero questions is rejected before
  grading, with no division performed. The quiz item of this store has no question; the
  submission of student 6 reaches the division and ends in ZeroDivisionError.
\<close>

theorem take_quiz_zero_questions:
  "map_option ci_type (get_content_item empty_quiz_store 1) = Some ''quiz'' \<and>
   questions empty_quiz_store 1 = [] \<and>
   grade [(1, ''Paris'')] (questions empty_quiz_store 1) = Inl ZeroDivisionError \<and>
   take_quiz empty_quiz_store 3 4 6 1 POST [(1, ''Paris'')] = Inl ZeroDivisionError"
  by code_simp

section \<open>Recomputing twice\<close>

text \<open>
  C8, as the claim states it: a second run of the recomputation leaves the enrollment as
  the first run did, completion date included. It fails at 100 percent: the run at time 1
  stamps the date 1 and the run at time 2 replaces it by 2.
\<close>

theorem update_progress_restamps:
  "update_progress once_failed_store 1 new_enrollment = Inr (stamped 1) \<and>
   update_progress once_failed_store 2 (stamped 1) = Inr (stamped 2) \<and>
   e_completion_date (stamped 1) = Some 1 \<and>
   e_completion_date (stamped 2) = Some 2"
  by code_simp

text \<open>
  C8, amended: a second run of the recomputation on the same store returns the same
  progress and the same completion flag; the completion date is the same too unless the
  progress is 100, where the second run stamps its own clock reading; when both runs read
  the same clock the whole enrollment is the same.
\<close>

theorem update_progress_twice:
  assumes "update_progress st t1 e = Inr e1"
  shows "\<exists>e2. update_progress st t2 e1 = Inr e2 \<and>
           e_progress e2 = e_progress e1 \<and> e_completed e2 = e_completed e1 \<and>
           e_completion_date e2 = (if e_progress e1 = 100 then Some t2 else e_completion_date e1) \<and>
           (t2 = t1 \<longrightarrow> e2 = e1)"
proof -
  obtain c where c: "get_course st (e_course_id e) = Some c"
    using assms update_progress_Inr by blast
  have e1: "e1 = (let p = percentage (completed_content st (e_student_id e) (e_course_id e))
                             (total_content st (e_course_id e))
          in if p = 100 then e\<lparr>e_progress := p, e_completed := True, e_completion_date := Some t1\<rparr>
             else e\<lparr>e_progress := p\<rparr>)"
    using assms update_progress_result[OF c, of t1] by simp
  have same: "e_course_id e1 = e_course_id e" "e_student_id e1 = e_student_id e"
    by (auto simp: e1 Let_def)
  have c1: "get_course st (e_course_id e1) = Some c" using c same by simp
  show ?thesis
    unfolding update_progress_result[OF c1] same
    by (auto simp: e1 Let_def)
qed

theorem update_progress_twice_witness:
  "update_progress once_failed_store 1 new_enrollment = Inr (stamped 1) \<and>
   (\<exists>e2. update_progress once_failed_store 2 (stamped 1) = Inr e2 \<and>
           e_progress e2 = e_progress (stamped 1) \<and> e_completed e2 = e_completed (stamped 1) \<and>
           e_completion_date e2 =
             (if e_progress (stamped 1) = 100 then Some 2 else e_completion_date (stamped 1)) \<and>
           (2 = (1::nat) \<longrightarrow> e2 = stamped 1))"
proof -
  have h: "update_progress once_failed_store 1 new_enrollment = Inr (stamped 1)"
    by code_simp
  show ?thesis
    by (rule conjI, rule h, rule update_progress_twice[OF h])
qed

section \<open>Enrolling twice\<close>


text \<open>The bound on the rows of a pair is kept by every enrollment request.\<close>

lemma enroll_course_keeps_unique:
  assumes "enroll_course st t uid cid = Inr (created, st')"
    and "length (filter (\<lambda>e. e_student_id e = u \<and> e_course_id e = k) (course_enrollments st)) \<le> 1"
  shows "length (filter (\<lambda>e. e_student_id e = u \<and> e_course_id e = k) (course_enrollments st')) \<le> 1"
proof (cases "find (\<lambda>e. e_student_id e = uid \<and> e_course_id e = cid) (course_enrollments st)")
  case None
  then have "filter (\<lambda>e. e_student_id e = uid \<and> e_course_id e = cid) (course_enrollments st) = []"
    by (simp add: find_None_filter)
  then show ?thesis
    using assms None by (auto simp: enroll_course_def split: option.splits)
next
  case (Some e)
  then show ?thesis
    using assms by (auto simp: enroll_course_def split: option.splits)
qed


section \<open>Grading\<close>

text \<open>
  C7, as the claim states it: every submitted answer is compared with the correct answer
  after trimming and lower-casing, and a quiz of four questions with exactly three such
  matches scores 7.5. Three of these four questions are stored with the empty correct
  answer and their fields are submitted empty: the three answers match, and the score is 0.
\<close>

theorem grade_blank_answers:
  "length blank_questions = 4 \<and>
   length (filter (normalized_equal blank_form) blank_questions) = 3 \<and>
   grade blank_form blank_questions = Inr 0"
  by code_simp

text \<open>
  C7, amended: grading a quiz that has a question counts the questions whose submitted
  answer is not the empty text and equals the correct answer after trimming and
  lower-casing both, with no partial credit, and the score is that count divided by the
  number of questions, times 10; for four questions with exactly three such answers it
  is 7.5.
\<close>

theorem grade_score:
  "(qs \<noteq> [] \<longrightarrow>
      grade frm qs =
        Inr ((of_nat (length (filter (\<lambda>q. normalized_equal frm q \<and> map_of frm (q_id q) \<noteq> Some []) qs))
                / of_nat (length qs)) * 10)) \<and>
   (length qs = 4 \<and>
    length (filter (\<lambda>q. normalized_equal frm q \<and> map_of frm (q_id q) \<noteq> Some []) qs) = 3 \<longrightarrow>
      grade frm qs = Inr (15 / 2))"
proof -
  have eq: "filter (answer_counts frm) qs =
            filter (\<lambda>q. normalized_equal frm q \<and> map_of frm (q_id q) \<noteq> Some []) qs"
    by (rule filter_cong) (auto simp: answer_counts_iff)
  have g: "grade frm qs =
        Inr ((of_nat (length (filter (\<lambda>q. normalized_equal frm q \<and> map_of frm (q_id q) \<noteq> Some []) qs))
                / of_nat (length qs)) * 10)" if "qs \<noteq> []"
    using that by (simp add: grade_nonempty eq)
  show ?thesis
  proof (intro conjI impI)
    assume "qs \<noteq> []"
    then show "grade frm qs =
        Inr ((of_nat (length (filter (\<lambda>q. normalized_equal frm q \<and> map_of frm (q_id q) \<noteq> Some []) qs))
                / of_nat (length qs)) * 10)"
      by (rule g)
  next
    assume a: "length qs = 4 \<and>
      length (filter (\<lambda>q. normalized_equal frm q \<and> map_of frm (q_id q) \<noteq> Some []) qs) = 3"
    then have "qs \<noteq> []" by auto
    from g[OF this] a show "grade frm qs = Inr (15 / 2)" by simp
  qed
qed

theorem grade_score_witness:
  "capitals_questions \<noteq> [] \<and>
   length capitals_questions = 4 \<and>
   length (filter (\<lambda>q. normalized_equal capitals_form q \<and> map_of capitals_form (q_id q) \<noteq> Some [])
             capitals_questions) = 3 \<and>
   grade capitals_form capitals_questions = Inr (15 / 2)"
proof -
  have h1: "capitals_questions \<noteq> []"
    by code_simp
  have h2: "length capitals_questions = 4 \<and>
    length (filter (\<lambda>q. normalized_equal capitals_form q \<and> map_of capitals_form (q_id q) \<noteq> Some [])
              capitals_questions) = 3"
    by code_simp
  have "grade capitals_form capitals_questions = Inr (15 / 2)"
    using grade_score[of capitals_questions capitals_form] h2 by blast
  then show ?thesis using h1 h2 by blast
qed

section \<open>Deleting a content item\<close>

text \<open>
  A content item that still has a response row cannot be deleted: the request of the
  instructor for the quiz that student 5 has answered ends in IntegrityError.
\<close>

lemma delete_content_with_response:
  "delete_content half_store 10 1 = Inl IntegrityError"
  by code_simp

text \<open>
  C3, as the claim states it: after the deletion of a content item the progress of every
  enrollment in its course has been recomputed. The instructor deletes the text item of a
  two-item course in which student 5 has completed the other item: the deletion succeeds,
  the enrollment still holds 50, and the recomputation on the store after the deletion
  gives 100.
\<close>

theorem delete_content_stale_progress:
  "delete_content half_store 10 2 = Inr (Deleted, half_store_no_text) \<and>
   course_enrollments half_store_no_text = [half_enrollment] \<and>
   e_progress half_enrollment = 50 \<and>
   map_sum id e_progress (update_progress half_store_no_text 9 half_enrollment) = Inr 100"
  by code_simp

text \<open>
  C3, amended: after a deletion of content item X that succeeds, X is not in the store, no
  response row and no quiz question row references X, and the enrollment rows are exactly
  those of before the deletion: no progress is recomputed.
\<close>

theorem delete_content_cascade:
  assumes "delete_content st uid X = Inr (Deleted, st')"
  shows "get_content_item st' X = None \<and>
         filter (\<lambda>r. r_content_item_id r = X) (student_responses st') = [] \<and>
         filter (\<lambda>q. q_content_item_id q = X) (quiz_questions st') = [] \<and>
         course_enrollments st' = course_enrollments st"
proof -
  obtain item m c where "get_content_item st X = Some item"
    and "get_module st (ci_module_id item) = Some m" and "get_course st (m_course_id m) = Some c"
    and own: "c_instructor_id c = uid"
    and nr: "find (\<lambda>r. r_content_item_id r = X) (student_responses st) = None"
    and st': "st' = st\<lparr>content_items := filter (\<lambda>x. ci_id x \<noteq> X) (content_items st),
                       quiz_questions := filter (\<lambda>q. q_content_item_id q \<noteq> X) (quiz_questions st)\<rparr>"
    using assms by (auto simp: delete_content_def split: option.splits if_splits)
  have gone: "get_content_item st' X = None"
    by (simp add: st' get_content_item_def find_None_filter)
  have resp: "filter (\<lambda>r. r_content_item_id r = X) (student_responses st') = []"
    using nr by (simp add: st' find_None_filter)
  have ques: "filter (\<lambda>q. q_content_item_id q = X) (quiz_questions st') = []"
    by (simp add: st')
  have enr: "course_enrollments st' = course_enrollments st"
    by (simp add: st')
  show ?thesis using gone resp ques enr by blast
qed

theorem delete_content_cascade_witness:
  "delete_content grown_store 10 3 = Inr (Deleted, grown_store_no_second_quiz) \<and>
   (get_content_item grown_store_no_second_quiz 3 = None \<and>
    filter (\<lambda>r. r_content_item_id r = 3) (student_responses grown_store_no_second_quiz) = [] \<and>
    filter (\<lambda>q. q_content_item_id q = 3) (quiz_questions grown_store_no_second_quiz) = [] \<and>
    course_enrollments grown_store_no_second_quiz = course_enrollments grown_store) \<and>
   filter (\<lambda>q. q_content_item_id q = 3) (quiz_questions grown_store) = [question 2 3 ''Danube'']"
proof -
  have h: "delete_content grown_store 10 3 = Inr (Deleted, grown_store_no_second_quiz)"
    by code_simp
  have before: "filter (\<lambda>q. q_content_item_id q = 3) (quiz_questions grown_store) = [question 2 3 ''Danube'']"
    by code_simp
  show ?thesis
    by (rule conjI, rule h, rule conjI, rule delete_content_cascade[OF h], rule before)
qed

section \<open>The retry rule of take_quiz\<close>

text \<open>
  C4, as the claim states it: a submission of a student without a prior response of score
  7 or more is graded and creates a response row. Student 5 has no response at all for the
  quiz of this store, which has no question: the submission ends in ZeroDivisionError, and
  no store with a new row is returned.
\<close>

theorem take_quiz_unblocked_not_graded:
  "map_option ci_type (get_content_item empty_quiz_store 1) = Some ''quiz'' \<and>
   student_responses empty_quiz_store = [] \<and>
   take_quiz empty_quiz_store 1 2 5 1 POST [] = Inl ZeroDivisionError"
  by code_simp

text \<open>
  C4, amended: for a content item of type quiz, if some response of the student to the
  quiz has a score of 7 or more, every request is answered as already passed and the store
  is returned as it was (nothing is graded, no row is created); if there is none, the quiz
  has at least one question and its module and course are in the store, a submission is
  graded and the store gets exactly one new response row, of this student for this quiz,
  with the score.
\<close>

theorem take_quiz_retry_policy:
  assumes q: "get_content_item st quiz_id = Some quiz" and ty: "ci_type quiz = ''quiz''"
  shows "((\<exists>r \<in> set (student_responses st). passing_response uid quiz_id r) \<longrightarrow>
            take_quiz st tr tp uid quiz_id method frm = Inr (AlreadyPassed, st)) \<and>
         (\<not> (\<exists>r \<in> set (student_responses st). passing_response uid quiz_id r) \<and>
          questions st quiz_id \<noteq> [] \<and>
          get_module st (ci_module_id quiz) = Some m \<and> get_course st (m_course_id m) = Some c \<longrightarrow>
            (\<exists>score st'. take_quiz st tr tp uid quiz_id POST frm = Inr (Graded score, st') \<and>
               grade frm (questions st quiz_id) = Inr score \<and>
               student_responses st' = student_responses st @
                 [\<lparr>r_id = next_id (map r_id (student_responses st)), r_student_id = uid,
                   r_content_item_id = quiz_id, r_response = Some frm, r_score = Some score,
                   r_completed = True, r_completion_date = Some tr\<rparr>]))"
proof (intro conjI impI)
  assume "\<exists>r \<in> set (student_responses st). passing_response uid quiz_id r"
  then obtain r where "r \<in> set (student_responses st)" "passing_response uid quiz_id r"
    by blast
  then show "take_quiz st tr tp uid quiz_id method frm = Inr (AlreadyPassed, st)"
    by (rule take_quiz_blocked[OF q ty])
next
  assume a: "\<not> (\<exists>r \<in> set (student_responses st). passing_response uid quiz_id r) \<and>
          questions st quiz_id \<noteq> [] \<and>
          get_module st (ci_module_id quiz) = Some m \<and> get_course st (m_course_id m) = Some c"
  define score where
    "score = (of_nat (length (filter (answer_counts frm) (questions st quiz_id)))
                / of_nat (length (questions st quiz_id))) * (10::rat)"
  define response where
    "response = \<lparr>r_id = next_id (map r_id (student_responses st)), r_student_id = uid,
                  r_content_item_id = quiz_id, r_response = Some frm, r_score = Some score,
                  r_completed = True, r_completion_date = Some tr\<rparr>"
  define st1 where "st1 = st\<lparr>student_responses := student_responses st @ [response]\<rparr>"
  define p where
    "p = percentage (completed_content st1 uid (m_course_id m)) (total_content st1 (m_course_id m))"
  have np: "find (passing_response uid quiz_id) (student_responses st) = None"
    using a by (auto simp: find_None_iff)
  have g: "grade frm (questions st quiz_id) = Inr score"
    using a by (simp add: grade_nonempty score_def)
  have m: "get_module st (ci_module_id quiz) = Some m" and c: "get_course st (m_course_id m) = Some c"
    using a by simp_all
  note tq = take_quiz_graded[OF q ty np g m c response_def st1_def p_def, of tp]
  have rs1: "student_responses st1 = student_responses st @ [response]"
    by (simp add: st1_def)
  have "\<exists>st'. take_quiz st tr tp uid quiz_id POST frm = Inr (Graded score, st') \<and>
              student_responses st' = student_responses st @ [response]"
  proof (cases "find (\<lambda>e. e_student_id e = uid \<and> e_course_id e = m_course_id m) (course_enrollments st)")
    case None
    then show ?thesis using tq rs1 by simp
  next
    case (Some e)
    then show ?thesis using tq rs1 by (simp add: commit_enrollment_def)
  qed
  then show "\<exists>score st'. take_quiz st tr tp uid quiz_id POST frm = Inr (Graded score, st') \<and>
               grade frm (questions st quiz_id) = Inr score \<and>
               student_responses st' = student_responses st @
                 [\<lparr>r_id = next_id (map r_id (student_responses st)), r_student_id = uid,
                   r_content_item_id = quiz_id, r_response = Some frm, r_score = Some score,
                   r_completed = True, r_completion_date = Some tr\<rparr>]"
    using g unfolding response_def by blast
qed

theorem take_quiz_retry_policy_witness:
  "(get_content_item grown_store 1 = Some capitals_quiz \<and> ci_type capitals_quiz = ''quiz'' \<and>
    (\<exists>r \<in> set (student_responses grown_store). passing_response 5 1 r) \<and>
    take_quiz grown_store 7 8 5 1 POST [(1, ''Paris'')] = Inr (AlreadyPassed, grown_store)) \<and>
   (get_content_item quiz_store 1 = Some capitals_quiz \<and>
    \<not> (\<exists>r \<in> set (student_responses quiz_store). passing_response 5 1 r) \<and>
    questions quiz_store 1 \<noteq> [] \<and>
    get_module quiz_store (ci_module_id capitals_quiz) = Some europe \<and>
    get_course quiz_store (m_course_id europe) = Some geography \<and>
    (\<exists>score st'. take_quiz quiz_store 1 2 5 1 POST [(1, ''Rome'')] = Inr (Graded score, st') \<and>
       grade [(1, ''Rome'')] (questions quiz_store 1) = Inr score \<and>
       student_responses st' = student_responses quiz_store @
         [\<lparr>r_id = next_id (map r_id (student_responses quiz_store)), r_student_id = 5,
           r_content_item_id = 1, r_response = Some [(1, ''Rome'')], r_score = Some score,
           r_completed = True, r_completion_date = Some 1\<rparr>]))"
proof -
  have q1: "get_content_item grown_store 1 = Some capitals_quiz"
    by code_simp
  have ty: "ci_type capitals_quiz = ''quiz''"
    by code_simp
  have p1: "\<exists>r \<in> set (student_responses grown_store). passing_response 5 1 r"
    by code_simp
  have b: "take_quiz grown_store 7 8 5 1 POST [(1, ''Paris'')] = Inr (AlreadyPassed, grown_store)"
    using take_quiz_retry_policy[where uid=5 and tr=7 and tp=8 and frm="[(1, ''Paris'')]", OF q1 ty] p1 by blast
  have q2: "get_content_item quiz_store 1 = Some capitals_quiz"
    by code_simp
  have h: "\<not> (\<exists>r \<in> set (student_responses quiz_store). passing_response 5 1 r) \<and>
    questions quiz_store 1 \<noteq> [] \<and>
    get_module quiz_store (ci_module_id capitals_quiz) = Some europe \<and>
    get_course quiz_store (m_course_id europe) = Some geography"
    by code_simp
  have g: "\<exists>score st'. take_quiz quiz_store 1 2 5 1 POST [(1, ''Rome'')] = Inr (Graded score, st') \<and>
       grade [(1, ''Rome'')] (questions quiz_store 1) = Inr score \<and>
       student_responses st' = student_responses quiz_store @
         [\<lparr>r_id = next_id (map r_id (student_responses quiz_store)), r_student_id = 5,
           r_content_item_id = 1, r_response = Some [(1, ''Rome'')], r_score = Some score,
           r_completed = True, r_completion_date = Some 1\<rparr>]"
    using take_quiz_retry_policy[where uid=5 and m=europe and c=geography and tr=1 and tp=2 and frm="[(1, ''Rome'')]", OF q2 ty] h by blast
  show ?thesis
    using q1 ty p1 b q2 h g by blast
qed

section \<open>Every graded submission is a completed response\<close>

text \<open>
  C10, as the claim states it: every submission that the passed-quiz rule does not block
  creates a completed response. Student 8 has no response for the quiz of this store and is
  not blocked; the quiz has no question, the submission ends in ZeroDivisionError and no
  response is created.
\<close>

theorem take_quiz_unblocked_no_response:
  "find (passing_response 8 1) (student_responses empty_quiz_store) = None \<and>
   isl (take_quiz empty_quiz_store 5 6 8 1 POST [(1, ''Rome'')]) \<and>
   take_quiz empty_quiz_store 5 6 8 1 POST [(1, ''Rome'')] = Inl ZeroDivisionError"
  by code_simp

text \<open>
  C10, amended: a submission that the passed-quiz rule does not block, to a quiz that has
  at least one question and whose module and course are in the store, creates one response
  row with \<open>completed = True\<close> and the completion date of the request, whatever the score;
  the row is counted by the progress recomputation, which therefore sees one completed
  response more for the course than before, and the enrollment of the student in the
  course, if there is one, is stored with the progress computed from that count.
\<close>

theorem take_quiz_marks_completed:
  assumes q: "get_content_item st quiz_id = Some quiz" and ty: "ci_type quiz = ''quiz''"
    and np: "find (passing_response uid quiz_id) (student_responses st) = None"
    and qs: "questions st quiz_id \<noteq> []"
    and m: "get_module st (ci_module_id quiz) = Some m"
    and c: "get_course st (m_course_id m) = Some c"
  shows "\<exists>score st' r.
           take_quiz st tr tp uid quiz_id POST frm = Inr (Graded score, st') \<and>
           student_responses st' = student_responses st @ [r] \<and>
           r_student_id r = uid \<and> r_content_item_id r = quiz_id \<and> r_score r = Some score \<and>
           r_completed r \<and> r_completion_date r = Some tr \<and>
           completed_content st' uid (m_course_id m) = completed_content st uid (m_course_id m) + 1 \<and>
           (case find (\<lambda>e. e_student_id e = uid \<and> e_course_id e = m_course_id m) (course_enrollments st) of
              None \<Rightarrow> course_enrollments st' = course_enrollments st
            | Some e \<Rightarrow>
                (\<exists>e' \<in> set (course_enrollments st').
                   e_id e' = e_id e \<and>
                   e_progress e' = percentage (completed_content st uid (m_course_id m) + 1)
                                              (total_content st (m_course_id m))))"
proof -
  define score where
    "score = (of_nat (length (filter (answer_counts frm) (questions st quiz_id)))
                / of_nat (length (questions st quiz_id))) * (10::rat)"
  define response where
    "response = \<lparr>r_id = next_id (map r_id (student_responses st)), r_student_id = uid,
                  r_content_item_id = quiz_id, r_response = Some frm, r_score = Some score,
                  r_completed = True, r_completion_date = Some tr\<rparr>"
  define st1 where "st1 = st\<lparr>student_responses := student_responses st @ [response]\<rparr>"
  define p where
    "p = percentage (completed_content st1 uid (m_course_id m)) (total_content st1 (m_course_id m))"
  have g: "grade frm (questions st quiz_id) = Inr score"
    using qs by (simp add: grade_nonempty score_def)
  note tq = take_quiz_graded[OF q ty np g m c response_def st1_def p_def, of tp]
  have same: "modules st1 = modules st" "content_items st1 = content_items st"
    by (simp_all add: st1_def)
  have rs1: "student_responses st1 = student_responses st @ [response]"
    by (simp add: st1_def)
  have r: "r_student_id response = uid" "r_content_item_id response = quiz_id"
    "r_score response = Some score" "r_completed response" "r_completion_date response = Some tr"
    by (simp_all add: response_def)
  have inc: "r_content_item_id response \<in> set (course_content_ids st (m_course_id m))"
    using content_in_course[OF q m] r(2) by simp
  have cc1: "completed_content st1 uid (m_course_id m) = completed_content st uid (m_course_id m) + 1"
    by (rule completed_content_append[OF same rs1 r(1) r(4) inc])
  have p': "p = percentage (completed_content st uid (m_course_id m) + 1) (total_content st (m_course_id m))"
    by (simp add: p_def cc1 total_content_cong[OF same])
  show ?thesis
  proof (cases "find (\<lambda>e. e_student_id e = uid \<and> e_course_id e = m_course_id m) (course_enrollments st)")
    case None
    have t: "take_quiz st tr tp uid quiz_id POST frm = Inr (Graded score, st1)"
      using tq None by simp
    have en: "course_enrollments st1 = course_enrollments st" by (simp add: st1_def)
    show ?thesis
      apply (rule exI[of _ score], rule exI[of _ st1], rule exI[of _ response])
      using t rs1 r cc1 en None by simp
  next
    case (Some e)
    define e' where
      "e' = e\<lparr>e_progress := p,
               e_completed := (if p = 100 then True else e_completed e),
               e_completion_date := (if p = 100 then Some tp else e_completion_date e)\<rparr>"
    define st2 where "st2 = commit_enrollment st1 e'"
    have t: "take_quiz st tr tp uid quiz_id POST frm = Inr (Graded score, st2)"
      using tq Some by (simp add: st2_def e'_def)
    have same2: "modules st2 = modules st1" "content_items st2 = content_items st1"
      "student_responses st2 = student_responses st1"
      by (simp_all add: st2_def commit_enrollment_def)
    have cc2: "completed_content st2 uid (m_course_id m) = completed_content st1 uid (m_course_id m)"
      unfolding completed_content_def course_content_ids_cong[OF same2(1,2)] same2(3) by (rule refl)
    have ein: "e \<in> set (course_enrollments st)"
      using Some by (auto simp: find_Some_iff)
    have "e' \<in> set (course_enrollments st2)"
      using ein by (force simp: st2_def commit_enrollment_def st1_def e'_def)
    moreover have "e_id e' = e_id e" "e_progress e' = p"
      by (simp_all add: e'_def)
    ultimately have ex: "\<exists>e' \<in> set (course_enrollments st2).
                   e_id e' = e_id e \<and>
                   e_progress e' = percentage (completed_content st uid (m_course_id m) + 1)
                                              (total_content st (m_course_id m))"
      using p' by blast
    show ?thesis
      apply (rule exI[of _ score], rule exI[of _ st2], rule exI[of _ response])
      using t rs1 r cc1 cc2 same2(3) ex Some by simp
  qed
qed

theorem take_quiz_marks_completed_witness:
  "get_content_item quiz_store 1 = Some capitals_quiz \<and> ci_type capitals_quiz = ''quiz'' \<and>
   find (passing_response 5 1) (student_responses quiz_store) = None \<and>
   questions quiz_store 1 \<noteq> [] \<and>
   get_module quiz_store (ci_module_id capitals_quiz) = Some europe \<and>
   get_course quiz_store (m_course_id europe) = Some geography \<and>
   (\<exists>score st' r.
       take_quiz quiz_store 1 2 5 1 POST [(1, ''Rome'')] = Inr (Graded score, st') \<and>
       student_responses st' = student_responses quiz_store @ [r] \<and>
       r_student_id r = 5 \<and> r_content_item_id r = 1 \<and> r_score r = Some score \<and>
       r_completed r \<and> r_completion_date r = Some 1 \<and>
       completed_content st' 5 (m_course_id europe) = completed_content quiz_store 5 (m_course_id europe) + 1 \<and>
       (case find (\<lambda>e. e_student_id e = 5 \<and> e_course_id e = m_course_id europe)
               (course_enrollments quiz_store) of
          None \<Rightarrow> course_enrollments st' = course_enrollments quiz_store
        | Some e \<Rightarrow>
            (\<exists>e' \<in> set (course_enrollments st').
               e_id e' = e_id e \<and>
               e_progress e' = percentage (completed_content quiz_store 5 (m_course_id europe) + 1)
                                          (total_content quiz_store (m_course_id europe))))) \<and>
   take_quiz quiz_store 1 2 5 1 POST [(1, ''Rome'')] = Inr (Graded 0, once_failed_store) \<and>
   completed_content once_failed_store 5 1 = 1 \<and>
   map e_progress (course_enrollments once_failed_store) = [100]"
proof -
  have q: "get_content_item quiz_store 1 = Some capitals_quiz"
    by code_simp
  have ty: "ci_type capitals_quiz = ''quiz''"
    by code_simp
  have np: "find (passing_response 5 1) (student_responses quiz_store) = None"
    by code_simp
  have qs: "questions quiz_store 1 \<noteq> []"
    by code_simp
  have m: "get_module quiz_store (ci_module_id capitals_quiz) = Some europe"
    by code_simp
  have c: "get_course quiz_store (m_course_id europe) = Some geography"
    by code_simp
  have run: "take_quiz quiz_store 1 2 5 1 POST [(1, ''Rome'')] = Inr (Graded 0, once_failed_store) \<and>
    completed_content once_failed_store 5 1 = 1 \<and>
    map e_progress (course_enrollments once_failed_store) = [100]"
    by code_simp
  note w = take_quiz_marks_completed[where tr=1 and tp=2 and frm="[(1, ''Rome'')]", OF q ty np qs m c]
  show ?thesis
    by (rule conjI, rule q, rule conjI, rule ty, rule conjI, rule np, rule conjI, rule qs,
        rule conjI, rule m, rule conjI, rule c, rule conjI, rule w, rule run)
qed

end
